theory Spec2Isabelle
  imports Complex_Main "HOL-Library.Multiset"
begin

section \<open>Python strings\<close>

text \<open>
  A Python \<^verbatim>\<open>str\<close> is a sequence of Unicode code points, and \<^verbatim>\<open>len\<close>, slicing,
  \<^verbatim>\<open>startswith\<close>, \<^verbatim>\<open>strip\<close> and the \<^verbatim>\<open>re\<close> module all count code points.
  A string is therefore a list of code points, written as numbers; the literals of the
  source are given by their code points in hexadecimal.
\<close>

type_synonym codepoint = nat

type_synonym pystr = "codepoint list"

text \<open>
  \<^verbatim>\<open>str.isspace\<close> for one character: the code points CPython lists as whitespace
  (\<^verbatim>\<open>_PyUnicode_IsWhitespace\<close>).
\<close>

definition isspace :: "codepoint \<Rightarrow> bool" where
  "isspace c =
     ((0x09 \<le> c \<and> c \<le> 0x0D) \<or> (0x1C \<le> c \<and> c \<le> 0x20) \<or> c = 0x85 \<or> c = 0xA0
      \<or> c = 0x1680 \<or> (0x2000 \<le> c \<and> c \<le> 0x200A) \<or> c = 0x2028 \<or> c = 0x2029
      \<or> c = 0x202F \<or> c = 0x205F \<or> c = 0x3000)"

text \<open>\<^verbatim>\<open>s.lstrip()\<close>, \<^verbatim>\<open>s.rstrip()\<close> and \<^verbatim>\<open>s.strip()\<close> with no argument.\<close>

definition lstrip :: "pystr \<Rightarrow> pystr" where
  "lstrip s = dropWhile isspace s"

definition rstrip :: "pystr \<Rightarrow> pystr" where
  "rstrip s = rev (dropWhile isspace (rev s))"

definition strip :: "pystr \<Rightarrow> pystr" where
  "strip s = rstrip (lstrip s)"

text \<open>\<^verbatim>\<open>s.startswith(p)\<close>.\<close>

definition startswith :: "pystr \<Rightarrow> pystr \<Rightarrow> bool" where
  "startswith s p = (take (length p) s = p)"

text \<open>
  \<^verbatim>\<open>s.replace(old, new)\<close> where \<^verbatim>\<open>old\<close> and \<^verbatim>\<open>new\<close> are single characters, the
  only form the source uses.
\<close>

definition replace_char :: "codepoint \<Rightarrow> codepoint \<Rightarrow> pystr \<Rightarrow> pystr" where
  "replace_char old new s = map (\<lambda>c. if c = old then new else c) s"

text \<open>
  Truthiness of an \<^verbatim>\<open>Optional[str]\<close>: \<^verbatim>\<open>None\<close> and the empty string are false.
\<close>

fun truthy_str :: "pystr option \<Rightarrow> bool" where
  "truthy_str None = False"
| "truthy_str (Some s) = (s \<noteq> [])"

section \<open>Address parser (parse\_address.py)\<close>

text \<open>
  \<^verbatim>\<open>CITY_PATTERNS\<close>, in the order of the source. The first and second entries are the two
  spellings of Taipei City (U+81FA and U+53F0 as first character).
\<close>

definition CITY_PATTERNS :: "pystr list" where
  "CITY_PATTERNS =
    [[0x81FA, 0x5317, 0x5E02], [0x53F0, 0x5317, 0x5E02], [0x65B0, 0x5317, 0x5E02],
     [0x6843, 0x5712, 0x5E02], [0x81FA, 0x4E2D, 0x5E02], [0x53F0, 0x4E2D, 0x5E02],
     [0x81FA, 0x5357, 0x5E02], [0x53F0, 0x5357, 0x5E02], [0x9AD8, 0x96C4, 0x5E02],
     [0x57FA, 0x9686, 0x5E02], [0x65B0, 0x7AF9, 0x5E02], [0x5609, 0x7FA9, 0x5E02],
     [0x65B0, 0x7AF9, 0x7E23], [0x82D7, 0x6817, 0x7E23], [0x5F70, 0x5316, 0x7E23],
     [0x5357, 0x6295, 0x7E23], [0x96F2, 0x6797, 0x7E23], [0x5609, 0x7FA9, 0x7E23],
     [0x5C4F, 0x6771, 0x7E23], [0x5B9C, 0x862D, 0x7E23], [0x82B1, 0x84EE, 0x7E23],
     [0x81FA, 0x6771, 0x7E23], [0x53F0, 0x6771, 0x7E23], [0x6F8E, 0x6E56, 0x7E23],
     [0x91D1, 0x9580, 0x7E23], [0x9023, 0x6C5F, 0x7E23]]"

text \<open>
  \<^verbatim>\<open>DISTRICT_SUFFIXES\<close>: the five characters U+5340 (district), U+5E02 (city),
  U+93AE (urban township), U+9109 (rural township) and U+7E23 (county). The regular
  expression of \<^verbatim>\<open>parse_city_and_district\<close> repeats them in its two character classes.
\<close>

definition DISTRICT_SUFFIXES :: "codepoint list" where
  "DISTRICT_SUFFIXES = [0x5340, 0x5E02, 0x93AE, 0x9109, 0x7E23]"

definition is_suffix_char :: "codepoint \<Rightarrow> bool" where
  "is_suffix_char c = (c \<in> set DISTRICT_SUFFIXES)"

text \<open>
  The loop over \<^verbatim>\<open>CITY_PATTERNS\<close>: the first pattern that is a prefix of the address is
  the city, and the loop stops there.
\<close>

fun match_city :: "pystr list \<Rightarrow> pystr \<Rightarrow> pystr option" where
  "match_city [] s = None"
| "match_city (p # ps) s = (if startswith s p then Some p else match_city ps s)"

text \<open>
  One attempt of the pattern \<^verbatim>\<open>^([^S]{k}[S])\<close> for a fixed repetition count \<open>k\<close>, where
  \<^verbatim>\<open>S\<close> are the five suffix characters: the first \<open>k\<close> characters are outside \<^verbatim>\<open>S\<close> and
  the next one is in \<^verbatim>\<open>S\<close>.
\<close>

definition match_at :: "nat \<Rightarrow> pystr \<Rightarrow> bool" where
  "match_at k s =
     (k < length s \<and> list_all (\<lambda>c. \<not> is_suffix_char c) (take k s) \<and> is_suffix_char (s ! k))"

text \<open>
  \<^verbatim>\<open>re.match(r'^([^S]{1,4}[S])', s)\<close>: the quantifier is greedy, so the longest
  repetition is tried first and the matcher backtracks down to one character. The result
  is group 1, the matched text.
\<close>

definition district_match :: "pystr \<Rightarrow> pystr option" where
  "district_match s =
     (if match_at 4 s then Some (take 5 s)
      else if match_at 3 s then Some (take 4 s)
      else if match_at 2 s then Some (take 3 s)
      else if match_at 1 s then Some (take 2 s)
      else None)"

text \<open>
  \<^verbatim>\<open>parse_city_and_district(address, fallback_city, fallback_district)\<close>, statement by
  statement. The result is \<^verbatim>\<open>(city, district, remaining_address)\<close>.
\<close>

definition parse_city_and_district ::
  "pystr option \<Rightarrow> pystr option \<Rightarrow> pystr option \<Rightarrow> pystr option \<times> pystr option \<times> pystr" where
  "parse_city_and_district address fallback_city fallback_district =
     (case address of
        None \<Rightarrow> (fallback_city, fallback_district, [])
      | Some a \<Rightarrow>
          if a = [] \<or> strip a = [] then (fallback_city, fallback_district, [])
          else
            let remaining0 = strip a;
                (city1, remaining1) =
                  (case match_city CITY_PATTERNS remaining0 of
                     Some p \<Rightarrow> (Some p, drop (length p) remaining0)
                   | None \<Rightarrow> (None, remaining0));
                city = (if \<not> truthy_str city1 \<and> truthy_str fallback_city
                        then fallback_city else city1);
                (district1, remaining2) =
                  (if truthy_str city \<and> length remaining1 > 0
                   then (case district_match remaining1 of
                           Some d \<Rightarrow> (Some d, drop (length d) remaining1)
                         | None \<Rightarrow> (None, remaining1))
                   else (None, remaining1));
                district = (if \<not> truthy_str district1 \<and> truthy_str fallback_district
                            then fallback_district else district1)
            in (city, district, strip remaining2))"

text \<open>
  \<^verbatim>\<open>normalize_city_name\<close>: \<^verbatim>\<open>None\<close> for a false value, otherwise every U+53F0
  replaced by U+81FA.
\<close>

definition normalize_city_name :: "pystr option \<Rightarrow> pystr option" where
  "normalize_city_name city =
     (case city of
        None \<Rightarrow> None
      | Some s \<Rightarrow> if s = [] then None else Some (replace_char 0x53F0 0x81FA s))"

text \<open>
  \<^verbatim>\<open>normalize_district_name\<close>: \<^verbatim>\<open>None\<close> for a false value, otherwise the stripped
  string. The test for a false value is made before the string is stripped.
\<close>

definition normalize_district_name :: "pystr option \<Rightarrow> pystr option" where
  "normalize_district_name district =
     (case district of
        None \<Rightarrow> None
      | Some s \<Rightarrow> if s = [] then None else Some (strip s))"

section \<open>Geocoding client (geocode\_nursing\_rooms.py)\<close>

text \<open>
  The exceptions the client code can meet, by the classes its handlers name:
  \<^verbatim>\<open>requests.exceptions.RequestException\<close> (connection failure, timeout, and the
  \<^verbatim>\<open>HTTPError\<close> of \<^verbatim>\<open>raise_for_status\<close>), the three of the second handler, and any other
  \<^verbatim>\<open>Exception\<close>.
\<close>

datatype py_exn = RequestException | KeyError | ValueError | TypeError | OtherException

text \<open>
  What \<^verbatim>\<open>requests.get\<close> gives back: no response at all (the call raises), or a response
  with a status code and a body. The body is \<^verbatim>\<open>None\<close> when \<^verbatim>\<open>response.json()\<close> cannot
  decode it, and the decoded document otherwise.
\<close>

datatype 'b http_reply = NoReply | Reply nat "'b option"

text \<open>
  \<^verbatim>\<open>response.raise_for_status()\<close> raises for the client and server error codes 400 to 599.
\<close>

definition raise_for_status :: "nat \<Rightarrow> py_exn + unit" where
  "raise_for_status status_code =
     (if 400 \<le> status_code \<and> status_code < 600 then Inl RequestException else Inr ())"

text \<open>
  A candidate of the service's answer. \<^verbatim>\<open>score\<close> is \<^verbatim>\<open>None\<close> when the key is absent;
  \<^verbatim>\<open>location\<close> likewise, and so are its coordinates \<^verbatim>\<open>x\<close> (longitude) and \<^verbatim>\<open>y\<close>
  (latitude). A score or a coordinate that is present is a number, as the service documents
  it: the value of the parsed Python float, taken as a real.
\<close>

record location =
  loc_x :: "real option"
  loc_y :: "real option"

record candidate =
  score :: "real option"
  location :: "location option"

text \<open>The decoded body: the value under \<^verbatim>\<open>"candidates"\<close>, \<^verbatim>\<open>None\<close> when the key is absent.\<close>

type_synonym geocode_body = "candidate list option"

text \<open>The key of \<^verbatim>\<open>max\<close>: \<^verbatim>\<open>x.get("score", 0)\<close>.\<close>

definition score_key :: "candidate \<Rightarrow> real" where
  "score_key c = (case score c of None \<Rightarrow> 0 | Some v \<Rightarrow> v)"

text \<open>
  Python's \<^verbatim>\<open>max(iterable, key=f)\<close>: one pass that keeps the running maximum and replaces
  it only by an element whose key is strictly greater. On an empty iterable it raises
  \<^verbatim>\<open>ValueError\<close>.
\<close>

fun max_from :: "('a \<Rightarrow> real) \<Rightarrow> 'a \<Rightarrow> 'a list \<Rightarrow> 'a" where
  "max_from key best [] = best"
| "max_from key best (x # xs) = max_from key (if key x > key best then x else best) xs"

fun py_max :: "('a \<Rightarrow> real) \<Rightarrow> 'a list \<Rightarrow> py_exn + 'a" where
  "py_max key [] = Inl ValueError"
| "py_max key (x # xs) = Inr (max_from key x xs)"

text \<open>
  Lines 57 to 65: the coordinates of the chosen candidate, \<^verbatim>\<open>(longitude, latitude)\<close>, or
  \<^verbatim>\<open>None\<close> when one of them is missing. An absent \<^verbatim>\<open>location\<close> is the empty dictionary.
\<close>

definition candidate_coordinates :: "candidate \<Rightarrow> (real \<times> real) option" where
  "candidate_coordinates best_candidate =
     (let loc = (case location best_candidate of
                   None \<Rightarrow> \<lparr>loc_x = None, loc_y = None\<rparr>
                 | Some l \<Rightarrow> l)
      in case (loc_x loc, loc_y loc) of
           (Some lon, Some lat) \<Rightarrow> Some (lon, lat)
         | _ \<Rightarrow> None)"

text \<open>
  The body of the \<^verbatim>\<open>try\<close> block of \<^verbatim>\<open>geocode_address\<close> (lines 35 to 65), given the
  outcome of the request: either an exception or the value returned.
\<close>

definition geocode_try :: "geocode_body http_reply \<Rightarrow> py_exn + (real \<times> real) option" where
  "geocode_try reply =
     (case reply of
        NoReply \<Rightarrow> Inl RequestException
      | Reply status_code body \<Rightarrow>
          (case raise_for_status status_code of
             Inl e \<Rightarrow> Inl e
           | Inr _ \<Rightarrow>
               (case body of
                  None \<Rightarrow> Inl ValueError
                | Some data \<Rightarrow>
                    (case data of
                       None \<Rightarrow> Inr None
                     | Some cands \<Rightarrow>
                         if cands = [] then Inr None
                         else (case py_max score_key cands of
                                 Inl e \<Rightarrow> Inl e
                               | Inr best_candidate \<Rightarrow>
                                   Inr (candidate_coordinates best_candidate))))))"

text \<open>
  The three \<^verbatim>\<open>except\<close> clauses of the client functions: each prints a warning and
  returns \<^verbatim>\<open>None\<close>.
\<close>

fun except_clauses :: "py_exn \<Rightarrow> 'a option" where
  "except_clauses RequestException = None"
| "except_clauses KeyError = None"
| "except_clauses ValueError = None"
| "except_clauses TypeError = None"
| "except_clauses OtherException = None"

text \<open>
  \<^verbatim>\<open>geocode_address(address)\<close>. The service is the function from the address sent to the
  outcome of the HTTP request. The test of line 31 comes before the \<^verbatim>\<open>try\<close>.
\<close>

definition geocode_address ::
  "(pystr \<Rightarrow> geocode_body http_reply) \<Rightarrow> pystr option \<Rightarrow> (real \<times> real) option" where
  "geocode_address service addr =
     (case addr of
        None \<Rightarrow> None
      | Some a \<Rightarrow>
          if a = [] \<or> strip a = [] then None
          else (case geocode_try (service a) of
                  Inr r \<Rightarrow> r
                | Inl e \<Rightarrow> except_clauses e))"

section \<open>Records and the geocoding worker\<close>

text \<open>
  A record of the snapshot file, with the fields the enrichment reads and writes. A field
  is \<^verbatim>\<open>None\<close> when its key is absent or null (an absent address reaches the client as
  the empty string and a null one as \<^verbatim>\<open>None\<close>; the client answers both alike). The
  coordinates are floats, taken as reals. Every other key of the dictionary is in the
  extension part of the record, which no function here touches.
\<close>

record item =
  name :: pystr
  address :: "pystr option"
  latitude :: "real option"
  longitude :: "real option"

text \<open>
  \<^verbatim>\<open>process_item(item, index, total)\<close> of geocode\_nursing\_rooms.py. The client is the
  function \<^verbatim>\<open>geocode_address\<close> the worker calls. The result is the returned tuple
  \<^verbatim>\<open>(index, item, coordinates)\<close> together with the list of addresses the worker passed
  to the client.
\<close>

definition process_item ::
  "(pystr option \<Rightarrow> (real \<times> real) option) \<Rightarrow> 'a item_scheme \<Rightarrow> nat \<Rightarrow> nat \<Rightarrow>
   (nat \<times> 'a item_scheme \<times> (real \<times> real) option) \<times> pystr option list" where
  "process_item client it index total_n =
     (if latitude it \<noteq> None \<and> longitude it \<noteq> None then ((index, it, None), [])
      else
        let coordinates = client (address it) in
        (case coordinates of
           Some (lon, lat) \<Rightarrow>
             ((index, it\<lparr>longitude := Some lon, latitude := Some lat\<rparr>, coordinates),
              [address it])
         | None \<Rightarrow> ((index, it, coordinates), [address it])))"

section \<open>The collection loop of the orchestrators\<close>

text \<open>
  The state of a run: the list \<^verbatim>\<open>items\<close>, the three counters, and the \<^verbatim>\<open>data\<close> array of
  the snapshot file as last written.
\<close>

record 'i run_state =
  items :: "'i list"
  processed_count :: int
  success_count :: int
  last_save_count :: int
  file_data :: "'i list"

text \<open>
  The body of the loop over \<^verbatim>\<open>as_completed\<close> is the same in both orchestrators
  (geocode\_nursing\_rooms.py lines 173 to 189, reverse\_geocode\_playgrounds.py lines 217
  to 233) up to the test that counts a success. Its first half takes the result of one
  finished job, counts it and writes the item back.
\<close>

definition record_completion ::
  "('r \<Rightarrow> bool) \<Rightarrow> nat \<times> 'i \<times> 'r \<Rightarrow> 'i run_state \<Rightarrow> 'i run_state" where
  "record_completion succeeded res s =
     (case res of (index, updated_item, r) \<Rightarrow>
        s\<lparr>processed_count := processed_count s + 1,
          items := (items s)[index := updated_item],
          success_count := (if succeeded r then success_count s + 1 else success_count s)\<rparr>)"

text \<open>Its second half is the periodic save.\<close>

definition checkpoint :: "int \<Rightarrow> 'i run_state \<Rightarrow> 'i run_state" where
  "checkpoint save_interval s =
     (if processed_count s - last_save_count s \<ge> save_interval
      then s\<lparr>file_data := items s, last_save_count := processed_count s\<rparr>
      else s)"

fun collect_loop ::
  "('r \<Rightarrow> bool) \<Rightarrow> int \<Rightarrow> (nat \<times> 'i \<times> 'r) list \<Rightarrow> 'i run_state \<Rightarrow> 'i run_state" where
  "collect_loop succeeded save_interval [] s = s"
| "collect_loop succeeded save_interval (res # rest) s =
     collect_loop succeeded save_interval rest
       (checkpoint save_interval (record_completion succeeded res s))"


text \<open>The state when the loop starts (lines 156 to 158), on the file just read.\<close>

definition start_state :: "'i list \<Rightarrow> 'i run_state" where
  "start_state data =
     \<lparr>items = data, processed_count = 0, success_count = 0, last_save_count = 0,
      file_data = data\<rparr>"

section \<open>The geocoding orchestrator\<close>

text \<open>Lines 136 to 140: the jobs are the records with a coordinate missing.\<close>

definition items_to_process :: "'a item_scheme list \<Rightarrow> (nat \<times> 'a item_scheme) list" where
  "items_to_process its =
     filter (\<lambda>(i, it). latitude it = None \<or> longitude it = None) (enumerate 0 its)"

text \<open>
  \<^verbatim>\<open>geocode_nursing_rooms\<close> on the \<^verbatim>\<open>data\<close> array of the input file. \<open>order\<close> lists the
  jobs in the order \<^verbatim>\<open>as_completed\<close> yields them, which is any order of the submitted
  jobs. With no job the function returns at line 148 and writes nothing; otherwise the
  loop runs and the file is written once more at the end (lines 222 to 227). The worker's
  update of an item is taken to happen when its result is collected; printing, timing and
  the interruption by the operator are left out.
\<close>

definition geocode_nursing_rooms ::
  "(pystr option \<Rightarrow> (real \<times> real) option) \<Rightarrow> int \<Rightarrow> (nat \<times> 'a item_scheme) list \<Rightarrow>
   'a item_scheme list \<Rightarrow> 'a item_scheme run_state" where
  "geocode_nursing_rooms client save_interval order data =
     (let missing_count = length (items_to_process data) in
      if missing_count = 0 then start_state data
      else
        let results = map (\<lambda>(index, it). fst (process_item client it index missing_count)) order;
            s = collect_loop (\<lambda>coordinates. coordinates \<noteq> None) save_interval results
                  (start_state data)
        in s\<lparr>file_data := items s\<rparr>)"


section \<open>Reverse geocoding (reverse\_geocode\_playgrounds.py)\<close>

text \<open>
  The decoded body of the reverse geocoding service: the value under \<^verbatim>\<open>"status"\<close> and
  the list under \<^verbatim>\<open>"results"\<close>, each result given by its \<^verbatim>\<open>"formatted_address"\<close>.
  \<^verbatim>\<open>None\<close> stands for an absent key.
\<close>

record reverse_body =
  rg_status :: "pystr option"
  rg_results :: "pystr option list option"

text \<open>The string \<^verbatim>\<open>"OK"\<close>.\<close>

definition status_OK :: pystr where
  "status_OK = [0x4F, 0x4B]"

text \<open>The body of the \<^verbatim>\<open>try\<close> block of \<^verbatim>\<open>reverse_geocode\<close> (lines 65 to 96).\<close>

definition reverse_try :: "reverse_body http_reply \<Rightarrow> py_exn + pystr option" where
  "reverse_try reply =
     (case reply of
        NoReply \<Rightarrow> Inl RequestException
      | Reply status_code body \<Rightarrow>
          (case raise_for_status status_code of
             Inl e \<Rightarrow> Inl e
           | Inr _ \<Rightarrow>
               (case body of
                  None \<Rightarrow> Inl ValueError
                | Some data \<Rightarrow>
                    if rg_status data \<noteq> Some status_OK then Inr None
                    else (case (case rg_results data of None \<Rightarrow> [] | Some rs \<Rightarrow> rs) of
                            [] \<Rightarrow> Inr None
                          | formatted_address # _ \<Rightarrow>
                              if truthy_str formatted_address then Inr formatted_address
                              else Inr None))))"

text \<open>
  \<^verbatim>\<open>reverse_geocode(latitude, longitude, api_key)\<close>. The service is the function from the
  request (the coordinates and the key) to the outcome of the HTTP request.
\<close>

definition reverse_geocode ::
  "(real \<times> real \<times> pystr \<Rightarrow> reverse_body http_reply) \<Rightarrow> real option \<Rightarrow> real option \<Rightarrow> pystr \<Rightarrow>
   pystr option" where
  "reverse_geocode service lat lng api_key =
     (case (lat, lng) of
        (Some la, Some lo) \<Rightarrow>
          (case reverse_try (service (la, lo, api_key)) of
             Inr r \<Rightarrow> r
           | Inl e \<Rightarrow> except_clauses e)
      | _ \<Rightarrow> None)"

text \<open>
  \<^verbatim>\<open>process_item(item, index, total, api_key)\<close> of reverse\_geocode\_playgrounds.py. The
  client is the function \<^verbatim>\<open>reverse_geocode\<close> the worker calls. The result is the
  returned tuple \<^verbatim>\<open>(index, item, address)\<close> together with the list of coordinate pairs
  the worker passed to the client.
\<close>

definition process_item_rg ::
  "(real option \<Rightarrow> real option \<Rightarrow> pystr \<Rightarrow> pystr option) \<Rightarrow> 'a item_scheme \<Rightarrow> nat \<Rightarrow> nat \<Rightarrow>
   pystr \<Rightarrow> (nat \<times> 'a item_scheme \<times> pystr option) \<times> (real option \<times> real option) list" where
  "process_item_rg client it index total_n api_key =
     (if truthy_str (address it) then ((index, it, None), [])
      else if latitude it = None \<or> longitude it = None then ((index, it, None), [])
      else
        let addr = client (latitude it) (longitude it) api_key in
        if truthy_str addr
        then ((index, it\<lparr>address := addr\<rparr>, addr), [(latitude it, longitude it)])
        else ((index, it, addr), [(latitude it, longitude it)]))"

text \<open>Lines 175 to 181: the jobs are the records with coordinates and no address.\<close>

definition items_to_process_rg :: "'a item_scheme list \<Rightarrow> (nat \<times> 'a item_scheme) list" where
  "items_to_process_rg its =
     filter (\<lambda>(i, it). \<not> truthy_str (address it) \<and> latitude it \<noteq> None \<and> longitude it \<noteq> None)
       (enumerate 0 its)"

text \<open>
  \<^verbatim>\<open>reverse_geocode_playgrounds\<close>, modelled as \<^verbatim>\<open>geocode_nursing_rooms\<close> is.
\<close>

definition reverse_geocode_playgrounds ::
  "(real option \<Rightarrow> real option \<Rightarrow> pystr \<Rightarrow> pystr option) \<Rightarrow> pystr \<Rightarrow> int \<Rightarrow>
   (nat \<times> 'a item_scheme) list \<Rightarrow> 'a item_scheme list \<Rightarrow> 'a item_scheme run_state" where
  "reverse_geocode_playgrounds client api_key save_interval order data =
     (let missing_count = length (items_to_process_rg data) in
      if missing_count = 0 then start_state data
      else
        let results =
              map (\<lambda>(index, it). fst (process_item_rg client it index missing_count api_key))
                order;
            s = collect_loop truthy_str save_interval results (start_state data)
        in s\<lparr>file_data := items s\<rparr>)"

section \<open>Coordinate transformer (parse\_playgrounds.py)\<close>

text \<open>
  \<^verbatim>\<open>twd97_to_wgs84(x, y)\<close>, line by line, with the Python floats taken as real numbers:
  the arithmetic is exact and \<^verbatim>\<open>math.sqrt\<close>, \<^verbatim>\<open>math.sin\<close>, \<^verbatim>\<open>math.cos\<close> and
  \<^verbatim>\<open>math.tan\<close> are the real functions. The result is \<^verbatim>\<open>(latitude, longitude)\<close> in
  degrees.
\<close>

definition twd97_to_wgs84 :: "real \<Rightarrow> real \<Rightarrow> real \<times> real" where
  "twd97_to_wgs84 x y =
     (let a = 6378137;
          b = 6356752.314140;
          e = sqrt (1 - (b * b) / (a * a));
          k0 = 0.9999;
          dx = 250000;
          dy = 0;
          lon0 = 121 * pi / 180;
          x1 = x - dx;
          y1 = y - dy;
          M = y1 / k0;
          mu = M / (a * (1 - e ^ 2 / 4 - 3 * e ^ 4 / 64 - 5 * e ^ 6 / 256));
          e1 = (1 - sqrt (1 - e * e)) / (1 + sqrt (1 - e * e));
          J1 = 3 * e1 / 2 - 27 * e1 ^ 3 / 32;
          J2 = 21 * e1 ^ 2 / 16 - 55 * e1 ^ 4 / 32;
          J3 = 151 * e1 ^ 3 / 96;
          J4 = 1097 * e1 ^ 4 / 512;
          fp = mu + J1 * sin (2 * mu) + J2 * sin (4 * mu) + J3 * sin (6 * mu)
               + J4 * sin (8 * mu);
          e2 = e ^ 2 / (1 - e ^ 2);
          N1 = a / sqrt (1 - e ^ 2 * sin fp ^ 2);
          T1 = tan fp ^ 2;
          C1 = e2 * cos fp ^ 2;
          R1 = a * (1 - e ^ 2) / (1 - e ^ 2 * sin fp ^ 2) powr 1.5;
          D = x1 / (N1 * k0);
          Q1 = N1 * tan fp / R1;
          Q2 = D ^ 2 / 2;
          Q3 = (5 + 3 * T1 + 10 * C1 - 4 * C1 ^ 2 - 9 * e2) * D ^ 4 / 24;
          Q4 = (61 + 90 * T1 + 298 * C1 + 45 * T1 ^ 2 - 252 * e2 - 3 * C1 ^ 2) * D ^ 6 / 720;
          lat = fp - Q1 * (Q2 - Q3 + Q4);
          Q5 = D;
          Q6 = (1 + 2 * T1 + C1) * D ^ 3 / 6;
          Q7 = (5 - 2 * C1 + 28 * T1 - 3 * C1 ^ 2 + 8 * e2 + 24 * T1 ^ 2) * D ^ 5 / 120;
          lng = lon0 + (Q5 - Q6 + Q7) / cos fp
      in (lat * 180 / pi, lng * 180 / pi))"

section \<open>Auxiliary notions for the properties\<close>

text \<open>The item a worker of the geocoding orchestrator hands back (the tuple's second part).\<close>

definition worker_item ::
  "(pystr option \<Rightarrow> (real \<times> real) option) \<Rightarrow> 'a item_scheme \<Rightarrow> 'a item_scheme" where
  "worker_item client it = fst (snd (fst (process_item client it 0 0)))"

text \<open>The assignments \<^verbatim>\<open>items[index] = updated_item\<close> of a whole loop, in order.\<close>

fun write_back :: "'i list \<Rightarrow> (nat \<times> 'i \<times> 'r) list \<Rightarrow> 'i list" where
  "write_back xs [] = xs"
| "write_back xs ((i, u, r) # rest) = write_back (xs[i := u]) rest"

text \<open>A record has both coordinates or neither.\<close>

definition coordinate_pair_consistent :: "'a item_scheme \<Rightarrow> bool" where
  "coordinate_pair_consistent it = ((latitude it = None) = (longitude it = None))"

section \<open>Properties of the collection loop\<close>

lemma process_item_item:
  "fst (snd (fst (process_item client it index n))) = worker_item client it"
  by (simp add: process_item_def worker_item_def Let_def split: option.splits prod.splits)

lemma process_item_index: "fst (fst (process_item client it index n)) = index"
  by (simp add: process_item_def Let_def split: option.splits prod.splits)

lemma worker_item_complete:
  "latitude it \<noteq> None \<Longrightarrow> longitude it \<noteq> None \<Longrightarrow> worker_item client it = it"
  by (simp add: worker_item_def process_item_def)

lemma worker_item_incomplete:
  "latitude it = None \<or> longitude it = None \<Longrightarrow>
   worker_item client it =
     (case client (address it) of
        Some (lon, lat) \<Rightarrow> it\<lparr>longitude := Some lon, latitude := Some lat\<rparr>
      | None \<Rightarrow> it)"
  by (auto simp: worker_item_def process_item_def Let_def split: option.splits)


lemma items_checkpoint: "items (checkpoint si s) = items s"
  by (simp add: checkpoint_def)

lemma items_record_completion:
  "items (record_completion succ (i, u, r) s) = (items s)[i := u]"
  by (simp add: record_completion_def)

lemma items_collect_loop:
  "items (collect_loop succ si rs s) = write_back (items s) rs"
proof (induction rs arbitrary: s)
  case Nil
  show ?case by simp
next
  case (Cons res rest)
  obtain i u r where res: "res = (i, u, r)" by (cases res) auto
  show ?case
    by (simp add: res Cons.IH items_checkpoint items_record_completion)
qed

lemma length_write_back: "length (write_back xs rs) = length xs"
  by (induction xs rs rule: write_back.induct) simp_all

text \<open>
  When the item written at an index is a function of the index, the list after the loop
  holds that item at every index some job named, and the old item elsewhere.
\<close>

lemma nth_write_back:
  assumes "list_all (\<lambda>(i, u, r). u = g i) rs" and "k < length xs"
  shows "write_back xs rs ! k = (if k \<in> fst ` set rs then g k else xs ! k)"
  using assms
proof (induction xs rs rule: write_back.induct)
  case (1 xs)
  show ?case by simp
next
  case (2 xs i u r rest)
  have u: "u = g i" and rest: "list_all (\<lambda>(i, u, r). u = g i) rest"
    using "2.prems"(1) by simp_all
  have len: "k < length (xs[i := u])" using "2.prems"(2) by simp
  have "write_back (xs[i := u]) rest ! k =
          (if k \<in> fst ` set rest then g k else xs[i := u] ! k)"
    using "2.IH" [OF rest len] .
  then show ?case
    using "2.prems"(2) u by (auto simp: nth_list_update)
qed

lemma in_items_to_process:
  "(i, it) \<in> set (items_to_process data) \<longleftrightarrow>
     i < length data \<and> it = data ! i \<and> (latitude it = None \<or> longitude it = None)"
  by (auto simp: items_to_process_def in_set_enumerate_eq)


text \<open>
  The snapshot written at the end of a run holds, for every record, the item its worker
  hands back; a record that had both coordinates has no job and is the item it was.
\<close>

lemma final_items:
  assumes ord: "set order = set (items_to_process data)"
  shows "file_data (geocode_nursing_rooms client si order data) = map (worker_item client) data"
proof (cases "items_to_process data = []")
  case True
  have "list_all (\<lambda>it. latitude it \<noteq> None \<and> longitude it \<noteq> None) data"
    unfolding list_all_length
  proof (intro allI impI)
    fix i assume i: "i < length data"
    have "(i, data ! i) \<notin> set (items_to_process data)" using True by simp
    then show "latitude (data ! i) \<noteq> None \<and> longitude (data ! i) \<noteq> None"
      using i by (simp add: in_items_to_process)
  qed
  then have "map (worker_item client) data = data"
    by (induction data) (simp_all add: worker_item_complete)
  then show ?thesis
    using True by (simp add: geocode_nursing_rooms_def start_state_def)
next
  case False
  define mc where "mc = length (items_to_process data)"
  define rs where "rs = map (\<lambda>(index, it). fst (process_item client it index mc)) order"
  have run: "file_data (geocode_nursing_rooms client si order data) = write_back data rs"
    using False
    by (simp add: geocode_nursing_rooms_def Let_def mc_def rs_def items_collect_loop
        start_state_def)
  have det: "list_all (\<lambda>(i, u, r). u = worker_item client (data ! i)) rs"
    unfolding list_all_iff
  proof
    fix res assume "res \<in> set rs"
    then obtain i it where mem: "(i, it) \<in> set order"
      and res: "res = fst (process_item client it i mc)"
      unfolding rs_def by auto
    have it: "it = data ! i" using mem ord by (simp add: in_items_to_process)
    have "fst (snd res) = worker_item client (data ! i)" and "fst res = i"
      using res it by (simp_all add: process_item_item process_item_index)
    then show "case res of (i, u, r) \<Rightarrow> u = worker_item client (data ! i)"
      by (cases res) auto
  qed
  have idx: "fst ` set rs = fst ` set order"
  proof -
    have "map fst rs = map fst order"
      unfolding rs_def by (induction order) (auto simp: process_item_index)
    then have "set (map fst rs) = set (map fst order)" by simp
    then show ?thesis by simp
  qed
  have "write_back data rs = map (worker_item client) data"
  proof (rule nth_equalityI)
    show "length (write_back data rs) = length (map (worker_item client) data)"
      by (simp add: length_write_back)
  next
    fix k assume "k < length (write_back data rs)"
    then have k: "k < length data" by (simp add: length_write_back)
    show "write_back data rs ! k = map (worker_item client) data ! k"
    proof (cases "k \<in> fst ` set order")
      case True
      then show ?thesis
        using nth_write_back [OF det k] k idx by simp
    next
      case False
      then have "(k, data ! k) \<notin> set (items_to_process data)"
        using ord by force
      then have "latitude (data ! k) \<noteq> None \<and> longitude (data ! k) \<noteq> None"
        using k by (simp add: in_items_to_process)
      then have "worker_item client (data ! k) = data ! k"
        by (simp add: worker_item_complete)
      then show ?thesis
        using nth_write_back [OF det k] k idx False by simp
    qed
  qed
  then show ?thesis using run by simp
qed





section \<open>Claims about the enrichment run\<close>

text \<open>
  Claim C10. Enrichment workers never modify a complete record: the geocode worker hands a
  record with both coordinates back unchanged, with an empty result and without calling
  the client; the reverse geocode worker does the same for a record with a non-empty
  address.
\<close>

theorem complete_records_returned_unchanged:
  "(latitude it \<noteq> None \<and> longitude it \<noteq> None \<longrightarrow>
      process_item client it index n = ((index, it, None), []))
   \<and> (truthy_str (address it') \<longrightarrow>
      process_item_rg rclient it' index n api_key = ((index, it', None), []))"
  by (simp add: process_item_def process_item_rg_def)

theorem complete_records_returned_unchanged_witness:
  "process_item (\<lambda>a. Some (0, 0))
     \<lparr>name = [0x41], address = None, latitude = Some 25, longitude = Some 121.5\<rparr> 3 7
   = ((3, \<lparr>name = [0x41], address = None, latitude = Some 25, longitude = Some 121.5\<rparr>,
       None), [])
   \<and> process_item_rg (\<lambda>la lo k. Some [0x42])
     \<lparr>name = [0x41], address = Some [0x43], latitude = Some 25, longitude = Some 121.5\<rparr>
     3 7 [0x4B]
   = ((3, \<lparr>name = [0x41], address = Some [0x43], latitude = Some 25,
          longitude = Some 121.5\<rparr>, None), [])"
  using complete_records_returned_unchanged
    [of "\<lparr>name = [0x41], address = None, latitude = Some 25, longitude = Some 121.5\<rparr>"
        "\<lambda>a. Some (0, 0)" 3 7
        "\<lparr>name = [0x41], address = Some [0x43], latitude = Some 25, longitude = Some 121.5\<rparr>"
        "\<lambda>la lo k. Some [0x42]" "[0x4B]"]
  by simp








text \<open>
  Claim C3 says that after any run every persisted record has a latitude exactly when it
  has a longitude. A record that enters the run with a latitude and no longitude is
  selected as a job; when its client call gives nothing (here the address is missing, so
  no request is made) the record is written back as it came.
\<close>

theorem partial_pair_is_persisted:
  "items_to_process
     [\<lparr>name = [0x41], address = None, latitude = Some 25, longitude = None\<rparr>]
     = [(0, \<lparr>name = [0x41], address = None, latitude = Some 25, longitude = None\<rparr>)]
   \<and> file_data (geocode_nursing_rooms (geocode_address (\<lambda>a. NoReply)) 50
        [(0, \<lparr>name = [0x41], address = None, latitude = Some 25, longitude = None\<rparr>)]
        [\<lparr>name = [0x41], address = None, latitude = Some 25, longitude = None\<rparr>])
     = [\<lparr>name = [0x41], address = None, latitude = Some 25, longitude = None\<rparr>]
   \<and> \<not> coordinate_pair_consistent
        \<lparr>name = [0x41], address = None, latitude = Some 25, longitude = None\<rparr>"
  by (simp add: items_to_process_def enumerate_simps geocode_nursing_rooms_def process_item_def
      geocode_address_def record_completion_def checkpoint_def start_state_def
      coordinate_pair_consistent_def)

text \<open>
  Claim C3, amended. The run keeps the pairing, it does not establish it: when every
  record of the input file has both coordinates or neither, so has every record of the
  snapshot written at the end of the run, whether the jobs succeed or fail; a worker
  writes both coordinates or leaves the record as it is.
\<close>

theorem final_snapshot_preserves_pairing:
  assumes "list_all coordinate_pair_consistent data"
    and "mset order = mset (items_to_process data)"
  shows "list_all coordinate_pair_consistent
           (file_data (geocode_nursing_rooms client si order data))
         \<and> list_all (\<lambda>it. worker_item client it = it
                \<or> (latitude (worker_item client it) \<noteq> None
                    \<and> longitude (worker_item client it) \<noteq> None)) data"
proof -
  have ord: "set order = set (items_to_process data)"
    using assms(2) by (rule mset_eq_setD)
  have both: "worker_item client it = it
      \<or> (latitude (worker_item client it) \<noteq> None \<and> longitude (worker_item client it) \<noteq> None)"
    for it :: "'a item_scheme"
  proof (cases "latitude it \<noteq> None \<and> longitude it \<noteq> None")
    case True
    then show ?thesis by (simp add: worker_item_complete)
  next
    case False
    then have "latitude it = None \<or> longitude it = None" by blast
    then show ?thesis
      by (cases "client (address it)") (auto simp: worker_item_incomplete)
  qed
  have keep: "coordinate_pair_consistent (worker_item client it)"
    if "coordinate_pair_consistent it" for it :: "'a item_scheme"
    using both [of it] that by (auto simp: coordinate_pair_consistent_def)
  have "list_all coordinate_pair_consistent (map (worker_item client) data)"
    using assms(1) keep by (induction data) simp_all
  moreover have "list_all (\<lambda>it. worker_item client it = it
      \<or> (latitude (worker_item client it) \<noteq> None
          \<and> longitude (worker_item client it) \<noteq> None)) data"
    using both by (induction data) simp_all
  ultimately show ?thesis
    by (simp add: final_items [OF ord])
qed

theorem final_snapshot_preserves_pairing_witness:
  "list_all coordinate_pair_consistent
     (file_data (geocode_nursing_rooms (\<lambda>a. None) 50
        [(1, \<lparr>name = [0x42], address = None, latitude = None, longitude = None\<rparr>)]
        [\<lparr>name = [0x41], address = None, latitude = Some 24, longitude = Some 120\<rparr>,
         \<lparr>name = [0x42], address = None, latitude = None, longitude = None\<rparr>]))"
proof -
  have d: "list_all coordinate_pair_consistent
      [\<lparr>name = [0x41], address = None, latitude = Some 24, longitude = Some 120\<rparr>,
       \<lparr>name = [0x42], address = None, latitude = None, longitude = None\<rparr>]"
    by (simp add: coordinate_pair_consistent_def)
  have o: "mset [(1::nat, \<lparr>name = [0x42], address = None, latitude = None, longitude = None\<rparr>)]
      = mset (items_to_process
          [\<lparr>name = [0x41], address = None, latitude = Some 24, longitude = Some 120\<rparr>,
           \<lparr>name = [0x42], address = None, latitude = None, longitude = None\<rparr>])"
    by (simp add: items_to_process_def enumerate_simps)
  show ?thesis
    using final_snapshot_preserves_pairing [OF d o, where client = "\<lambda>a. None" and si = 50]
    by blast
qed

section \<open>Claims about the clients\<close>




text \<open>
  The same list evaluated: the second candidate is chosen, not the fourth with the same
  score, and its coordinates are the answer.
\<close>

lemma geocode_tie_example:
  "geocode_try (Reply 200 (Some (Some
     [\<lparr>score = Some 90, location = Some \<lparr>loc_x = Some 1, loc_y = Some 2\<rparr>\<rparr>,
      \<lparr>score = Some 100, location = Some \<lparr>loc_x = Some 121.5, loc_y = Some 25\<rparr>\<rparr>,
      \<lparr>score = None, location = Some \<lparr>loc_x = Some 3, loc_y = Some 4\<rparr>\<rparr>,
      \<lparr>score = Some 100, location = Some \<lparr>loc_x = Some 5, loc_y = Some 6\<rparr>\<rparr>])))
   = Inr (Some (121.5, 25))"
  by (simp add: geocode_try_def raise_for_status_def score_key_def candidate_coordinates_def)

text \<open>
  Claim C7. The two client calls fail soft. A network error, an error status (400 to 599,
  the codes \<^verbatim>\<open>raise_for_status\<close> rejects), a body that is not JSON, a missing or empty
  candidate list (for the reverse client: a status other than OK, or no result) all give
  \<^verbatim>\<open>None\<close>; whatever exception the \<^verbatim>\<open>try\<close> block raises, the call returns
  \<^verbatim>\<open>None\<close>; and a missing or blank address, or a missing coordinate, gives \<^verbatim>\<open>None\<close>
  before any request is made.
\<close>

theorem client_calls_fail_soft:
  "(service a = NoReply \<longrightarrow> geocode_address service (Some a) = None)
   \<and> (service a = Reply st body \<and> 400 \<le> st \<and> st < 600 \<longrightarrow>
        geocode_address service (Some a) = None)
   \<and> (service a = Reply st None \<longrightarrow> geocode_address service (Some a) = None)
   \<and> (service a = Reply st (Some None) \<longrightarrow> geocode_address service (Some a) = None)
   \<and> (service a = Reply st (Some (Some [])) \<longrightarrow> geocode_address service (Some a) = None)
   \<and> (geocode_try (service a) = Inl e \<longrightarrow> geocode_address service (Some a) = None)
   \<and> (rservice (la, lo, k) = NoReply \<longrightarrow> reverse_geocode rservice (Some la) (Some lo) k = None)
   \<and> (rservice (la, lo, k) = Reply st rbody \<and> 400 \<le> st \<and> st < 600 \<longrightarrow>
        reverse_geocode rservice (Some la) (Some lo) k = None)
   \<and> (rservice (la, lo, k) = Reply st None \<longrightarrow>
        reverse_geocode rservice (Some la) (Some lo) k = None)
   \<and> (rservice (la, lo, k) = Reply st (Some d) \<and> rg_status d \<noteq> Some status_OK \<longrightarrow>
        reverse_geocode rservice (Some la) (Some lo) k = None)
   \<and> (rservice (la, lo, k) = Reply st (Some d) \<and> (rg_results d = None \<or> rg_results d = Some [])
        \<longrightarrow> reverse_geocode rservice (Some la) (Some lo) k = None)
   \<and> (reverse_try (rservice (la, lo, k)) = Inl e' \<longrightarrow>
        reverse_geocode rservice (Some la) (Some lo) k = None)
   \<and> geocode_address service None = None
   \<and> (strip a = [] \<longrightarrow> geocode_address service (Some a) = None)
   \<and> (la' = None \<or> lo' = None \<longrightarrow> reverse_geocode rservice la' lo' k = None)"
proof -
  have exc: "except_clauses x = (None :: 'b option)" for x
    by (cases x) simp_all
  have g: "geocode_address service (Some a) = None"
    if "(\<exists>x. geocode_try (service a) = Inl x) \<or> geocode_try (service a) = Inr None"
    using that exc by (auto simp: geocode_address_def)
  have r: "reverse_geocode rservice (Some la) (Some lo) k = None"
    if "(\<exists>x. reverse_try (rservice (la, lo, k)) = Inl x)
        \<or> reverse_try (rservice (la, lo, k)) = Inr None"
    using that exc by (auto simp: reverse_geocode_def)
  have g1: "service a = NoReply \<longrightarrow> geocode_address service (Some a) = None"
  proof
    assume "service a = NoReply"
    then have "geocode_try (service a) = Inl RequestException"
      by (simp add: geocode_try_def)
    then show "geocode_address service (Some a) = None" using g by blast
  qed
  have g2: "service a = Reply st body \<and> 400 \<le> st \<and> st < 600 \<longrightarrow>
        geocode_address service (Some a) = None"
  proof
    assume "service a = Reply st body \<and> 400 \<le> st \<and> st < 600"
    then have "geocode_try (service a) = Inl RequestException"
      by (simp add: geocode_try_def raise_for_status_def)
    then show "geocode_address service (Some a) = None" using g by blast
  qed
  have g3: "service a = Reply st None \<longrightarrow> geocode_address service (Some a) = None"
  proof
    assume "service a = Reply st None"
    then have "geocode_try (service a) = Inl RequestException
        \<or> geocode_try (service a) = Inl ValueError"
      by (simp add: geocode_try_def raise_for_status_def)
    then show "geocode_address service (Some a) = None" using g by blast
  qed
  have g4: "service a = Reply st (Some None) \<longrightarrow> geocode_address service (Some a) = None"
  proof
    assume "service a = Reply st (Some None)"
    then have "geocode_try (service a) = Inl RequestException
        \<or> geocode_try (service a) = Inr None"
      by (simp add: geocode_try_def raise_for_status_def)
    then show "geocode_address service (Some a) = None" using g by blast
  qed
  have g5: "service a = Reply st (Some (Some [])) \<longrightarrow> geocode_address service (Some a) = None"
  proof
    assume "service a = Reply st (Some (Some []))"
    then have "geocode_try (service a) = Inl RequestException
        \<or> geocode_try (service a) = Inr None"
      by (simp add: geocode_try_def raise_for_status_def)
    then show "geocode_address service (Some a) = None" using g by blast
  qed
  have g6: "geocode_try (service a) = Inl e \<longrightarrow> geocode_address service (Some a) = None"
    using g by blast
  have r1: "rservice (la, lo, k) = NoReply \<longrightarrow>
      reverse_geocode rservice (Some la) (Some lo) k = None"
  proof
    assume "rservice (la, lo, k) = NoReply"
    then have "reverse_try (rservice (la, lo, k)) = Inl RequestException"
      by (simp add: reverse_try_def)
    then show "reverse_geocode rservice (Some la) (Some lo) k = None" using r by blast
  qed
  have r2: "rservice (la, lo, k) = Reply st rbody \<and> 400 \<le> st \<and> st < 600 \<longrightarrow>
        reverse_geocode rservice (Some la) (Some lo) k = None"
  proof
    assume "rservice (la, lo, k) = Reply st rbody \<and> 400 \<le> st \<and> st < 600"
    then have "reverse_try (rservice (la, lo, k)) = Inl RequestException"
      by (simp add: reverse_try_def raise_for_status_def)
    then show "reverse_geocode rservice (Some la) (Some lo) k = None" using r by blast
  qed
  have r3: "rservice (la, lo, k) = Reply st None \<longrightarrow>
        reverse_geocode rservice (Some la) (Some lo) k = None"
  proof
    assume "rservice (la, lo, k) = Reply st None"
    then have "reverse_try (rservice (la, lo, k)) = Inl RequestException
        \<or> reverse_try (rservice (la, lo, k)) = Inl ValueError"
      by (simp add: reverse_try_def raise_for_status_def)
    then show "reverse_geocode rservice (Some la) (Some lo) k = None" using r by blast
  qed
  have r4: "rservice (la, lo, k) = Reply st (Some d) \<and> rg_status d \<noteq> Some status_OK \<longrightarrow>
        reverse_geocode rservice (Some la) (Some lo) k = None"
  proof
    assume "rservice (la, lo, k) = Reply st (Some d) \<and> rg_status d \<noteq> Some status_OK"
    then have "reverse_try (rservice (la, lo, k)) = Inl RequestException
        \<or> reverse_try (rservice (la, lo, k)) = Inr None"
      by (simp add: reverse_try_def raise_for_status_def)
    then show "reverse_geocode rservice (Some la) (Some lo) k = None" using r by blast
  qed
  have r5: "rservice (la, lo, k) = Reply st (Some d)
        \<and> (rg_results d = None \<or> rg_results d = Some [])
        \<longrightarrow> reverse_geocode rservice (Some la) (Some lo) k = None"
  proof
    assume "rservice (la, lo, k) = Reply st (Some d)
        \<and> (rg_results d = None \<or> rg_results d = Some [])"
    then have "reverse_try (rservice (la, lo, k)) = Inl RequestException
        \<or> reverse_try (rservice (la, lo, k)) = Inr None"
      by (auto simp: reverse_try_def raise_for_status_def)
    then show "reverse_geocode rservice (Some la) (Some lo) k = None" using r by blast
  qed
  have r6: "reverse_try (rservice (la, lo, k)) = Inl e' \<longrightarrow>
        reverse_geocode rservice (Some la) (Some lo) k = None"
    using r by blast
  have b1: "geocode_address service None = None"
    by (simp add: geocode_address_def)
  have b2: "strip a = [] \<longrightarrow> geocode_address service (Some a) = None"
    by (simp add: geocode_address_def)
  have b3: "la' = None \<or> lo' = None \<longrightarrow> reverse_geocode rservice la' lo' k = None"
    by (auto simp: reverse_geocode_def split: option.splits)
  show ?thesis
    using g1 g2 g3 g4 g5 g6 r1 r2 r3 r4 r5 r6 b1 b2 b3 by blast
qed

theorem client_calls_fail_soft_witness:
  "geocode_address (\<lambda>a. NoReply) (Some [0x41]) = None
   \<and> geocode_address (\<lambda>a. Reply 503 None) (Some [0x41]) = None
   \<and> geocode_address (\<lambda>a. Reply 200 None) (Some [0x41]) = None
   \<and> geocode_address (\<lambda>a. Reply 200 (Some None)) (Some [0x41]) = None
   \<and> geocode_address (\<lambda>a. Reply 200 (Some (Some []))) (Some [0x41]) = None
   \<and> reverse_geocode (\<lambda>q. NoReply) (Some 25) (Some 121.5) [0x4B] = None
   \<and> reverse_geocode (\<lambda>q. Reply 404 None) (Some 25) (Some 121.5) [0x4B] = None
   \<and> reverse_geocode (\<lambda>q. Reply 200 None) (Some 25) (Some 121.5) [0x4B] = None
   \<and> reverse_geocode
        (\<lambda>q. Reply 200 (Some \<lparr>rg_status = Some [0x4E, 0x4F], rg_results = Some [Some [0x41]]\<rparr>))
        (Some 25) (Some 121.5) [0x4B] = None
   \<and> reverse_geocode
        (\<lambda>q. Reply 200 (Some \<lparr>rg_status = Some status_OK, rg_results = Some []\<rparr>))
        (Some 25) (Some 121.5) [0x4B] = None"
proof -
  have w1: "geocode_address (\<lambda>a. NoReply) (Some [0x41]) = None"
    using client_calls_fail_soft [where service = "\<lambda>a. NoReply" and a = "[0x41]"]
    by simp
  have w2: "geocode_address (\<lambda>a. Reply 503 None) (Some [0x41]) = None"
    using client_calls_fail_soft [where service = "\<lambda>a. Reply 503 None" and a = "[0x41]"
      and st = 503 and body = None]
    by simp
  have w3: "geocode_address (\<lambda>a. Reply 200 None) (Some [0x41]) = None"
    using client_calls_fail_soft [where service = "\<lambda>a. Reply 200 None" and a = "[0x41]"
      and st = 200]
    by simp
  have w4: "geocode_address (\<lambda>a. Reply 200 (Some None)) (Some [0x41]) = None"
    using client_calls_fail_soft [where service = "\<lambda>a. Reply 200 (Some None)"
      and a = "[0x41]" and st = 200]
    by simp
  have w5: "geocode_address (\<lambda>a. Reply 200 (Some (Some []))) (Some [0x41]) = None"
    using client_calls_fail_soft [where service = "\<lambda>a. Reply 200 (Some (Some []))"
      and a = "[0x41]" and st = 200]
    by simp
  have w6: "reverse_geocode (\<lambda>q. NoReply) (Some 25) (Some 121.5) [0x4B] = None"
    using client_calls_fail_soft [where rservice = "\<lambda>q. NoReply" and la = 25
      and lo = "121.5" and k = "[0x4B]"]
    by simp
  have w7: "reverse_geocode (\<lambda>q. Reply 404 None) (Some 25) (Some 121.5) [0x4B] = None"
    using client_calls_fail_soft [where rservice = "\<lambda>q. Reply 404 None" and la = 25
      and lo = "121.5" and k = "[0x4B]" and st = 404 and rbody = None]
    by simp
  have w8: "reverse_geocode (\<lambda>q. Reply 200 None) (Some 25) (Some 121.5) [0x4B] = None"
    using client_calls_fail_soft [where rservice = "\<lambda>q. Reply 200 None" and la = 25
      and lo = "121.5" and k = "[0x4B]" and st = 200]
    by simp
  have w9: "reverse_geocode
      (\<lambda>q. Reply 200 (Some \<lparr>rg_status = Some [0x4E, 0x4F], rg_results = Some [Some [0x41]]\<rparr>))
      (Some 25) (Some 121.5) [0x4B] = None"
    using client_calls_fail_soft [where rservice = "\<lambda>q. Reply 200 (Some \<lparr>rg_status =
        Some [0x4E, 0x4F], rg_results = Some [Some [0x41]]\<rparr>)" and la = 25
      and lo = "121.5" and k = "[0x4B]" and st = 200
      and d = "\<lparr>rg_status = Some [0x4E, 0x4F], rg_results = Some [Some [0x41]]\<rparr>"]
    by (simp add: status_OK_def)
  have w10: "reverse_geocode
      (\<lambda>q. Reply 200 (Some \<lparr>rg_status = Some status_OK, rg_results = Some []\<rparr>))
      (Some 25) (Some 121.5) [0x4B] = None"
    using client_calls_fail_soft [where rservice = "\<lambda>q. Reply 200 (Some \<lparr>rg_status =
        Some status_OK, rg_results = Some []\<rparr>)" and la = 25
      and lo = "121.5" and k = "[0x4B]" and st = 200
      and d = "\<lparr>rg_status = Some status_OK, rg_results = Some []\<rparr>"]
    by simp
  show ?thesis
    using w1 w2 w3 w4 w5 w6 w7 w8 w9 w10 by blast
qed

section \<open>Claim about the coordinate transformer\<close>

text \<open>
  At the false easting and northing zero every term of the series vanishes: the footpoint
  latitude is 0 and the easting difference is 0.
\<close>

lemma twd97_origin_exact: "twd97_to_wgs84 250000 0 = (0, 121)"
  by (simp add: twd97_to_wgs84_def Let_def)

text \<open>
  Claim C8. The transformer applied to x = 250000 (the false easting) and y = 0 returns
  latitude 0 and longitude 121, the central meridian, each within one millionth of a
  degree. The arithmetic is that of the real numbers.
\<close>

theorem twd97_false_easting_origin:
  "\<bar>fst (twd97_to_wgs84 250000 0) - 0\<bar> \<le> 1 / 10 ^ 6
   \<and> \<bar>snd (twd97_to_wgs84 250000 0) - 121\<bar> \<le> 1 / 10 ^ 6"
  by (simp add: twd97_origin_exact)

section \<open>Claims about the address parser\<close>

text \<open>Facts about \<^verbatim>\<open>strip\<close>: what it leaves of a cons, and that its two halves commute.\<close>

lemma rstrip_Cons:
  "rstrip (x # xs) = (if list_all isspace (x # xs) then [] else x # rstrip xs)"
  by (auto simp: rstrip_def dropWhile_append list_all_iff)

lemma lstrip_Cons: "lstrip (x # xs) = (if isspace x then lstrip xs else x # xs)"
  by (simp add: lstrip_def)

lemma strip_Nil: "strip [] = []"
  by (simp add: strip_def lstrip_def rstrip_def)

lemma rstrip_lstrip_commute: "rstrip (lstrip s) = lstrip (rstrip s)"
proof (induction s)
  case Nil
  show ?case by (simp add: rstrip_def lstrip_def)
next
  case (Cons x xs)
  show ?case
  proof (cases "list_all isspace (x # xs)")
    case True
    then have l: "lstrip (x # xs) = []"
      by (simp add: lstrip_def list_all_iff)
    have r: "rstrip (x # xs) = []"
      using True by (simp add: rstrip_Cons)
    show ?thesis
      unfolding l r by (simp add: rstrip_def lstrip_def)
  next
    case False
    then have r: "rstrip (x # xs) = x # rstrip xs"
      by (simp add: rstrip_Cons)
    show ?thesis
    proof (cases "isspace x")
      case True
      then show ?thesis
        using Cons.IH by (simp add: r lstrip_Cons)
    next
      case nsp: False
      then show ?thesis
        by (simp add: r lstrip_Cons)
    qed
  qed
qed

lemma rstrip_idem: "rstrip (rstrip s) = rstrip s"
  by (simp add: rstrip_def)

lemma lstrip_idem: "lstrip (lstrip s) = lstrip s"
  by (simp add: lstrip_def)

lemma strip_idem: "strip (strip s) = strip s"
proof -
  have "strip (strip s) = rstrip (lstrip (rstrip (lstrip s)))"
    by (simp add: strip_def)
  also have "\<dots> = rstrip (rstrip (lstrip (lstrip s)))"
    by (simp add: rstrip_lstrip_commute [symmetric])
  also have "\<dots> = strip s"
    by (simp add: rstrip_idem lstrip_idem strip_def)
  finally show ?thesis .
qed

lemma strip_rstrip: "strip (rstrip s) = strip s"
proof -
  have "strip (rstrip s) = rstrip (rstrip (lstrip s))"
    by (simp add: strip_def rstrip_lstrip_commute [symmetric])
  then show ?thesis
    by (simp add: rstrip_idem strip_def)
qed

lemma rstrip_append_nonspace:
  "\<not> isspace a \<Longrightarrow> rstrip (pre @ a # rest) = pre @ a # rstrip rest"
  by (auto simp: rstrip_def dropWhile_append)

text \<open>
  The city normalizer is idempotent, and so is the district normalizer on every string
  with a character that is not white space.
\<close>

lemma normalize_city_name_idempotent:
  "normalize_city_name (normalize_city_name c) = normalize_city_name c"
  by (cases c) (simp_all add: normalize_city_name_def replace_char_def)

lemma normalize_district_name_idempotent_nonblank:
  "strip s \<noteq> [] \<Longrightarrow>
   normalize_district_name (normalize_district_name (Some s)) = normalize_district_name (Some s)"
proof -
  assume ne: "strip s \<noteq> []"
  then have "s \<noteq> []" using strip_Nil by auto
  then show ?thesis
    using ne by (simp add: normalize_district_name_def strip_idem)
qed

text \<open>
  Claim C9 says that both normalizers are idempotent on every string. The district
  normalizer tests for an empty value before it strips: on the string of one space
  (U+0020) it returns the empty string, and on that result it returns \<^verbatim>\<open>None\<close>.
\<close>

theorem normalize_district_name_blank:
  "normalize_district_name (Some [0x20]) = Some []
   \<and> normalize_district_name (normalize_district_name (Some [0x20])) = None"
  by (simp add: normalize_district_name_def strip_def lstrip_def rstrip_def isspace_def)

text \<open>
  The parser on a city of the list, a district of the shape the pattern expects and a
  remainder. No city begins with white space and no suffix character is white space, so
  stripping the address strips only the end of the remainder.
\<close>

lemma city_head_not_space:
  "city \<in> set CITY_PATTERNS \<Longrightarrow> \<exists>c cs. city = c # cs \<and> \<not> isspace c"
  by (auto simp: CITY_PATTERNS_def isspace_def)

lemma suffix_char_not_space: "is_suffix_char c \<Longrightarrow> \<not> isspace c"
  by (auto simp: is_suffix_char_def DISTRICT_SUFFIXES_def isspace_def)

text \<open>All city patterns have three characters, so at most one is a prefix of an address.\<close>

lemma match_city_same_length:
  assumes "p \<in> set ps" and "list_all (\<lambda>q. length q = length p) ps"
  shows "match_city ps (p @ t) = Some p"
  using assms
proof (induction ps)
  case Nil
  then show ?case by simp
next
  case (Cons q qs)
  have len: "length q = length p" using Cons.prems(2) by simp
  show ?case
  proof (cases "q = p")
    case True
    then show ?thesis by (simp add: startswith_def)
  next
    case False
    then have "\<not> startswith (p @ t) q"
      using len by (simp add: startswith_def)
    moreover have "p \<in> set qs" using Cons.prems(1) False by auto
    moreover have "list_all (\<lambda>q. length q = length p) qs" using Cons.prems(2) by simp
    ultimately show ?thesis using Cons.IH by simp
  qed
qed

lemma city_patterns_length: "list_all (\<lambda>q. length q = 3) CITY_PATTERNS"
  by (simp add: CITY_PATTERNS_def)

lemma match_city_known:
  assumes "city \<in> set CITY_PATTERNS"
  shows "match_city CITY_PATTERNS (city @ t) = Some city"
proof -
  have three: "\<forall>q \<in> set CITY_PATTERNS. length q = 3"
    using city_patterns_length by (simp add: list_all_iff)
  then have "length city = 3" using assms by blast
  then have "list_all (\<lambda>q. length q = length city) CITY_PATTERNS"
    using three by (simp add: list_all_iff)
  then show ?thesis using assms by (rule match_city_same_length [rotated])
qed

text \<open>
  On a name of characters outside the suffix class followed by a suffix character, the
  pattern matches with exactly one repetition count: the length of the name.
\<close>

lemma match_at_shape:
  assumes "list_all (\<lambda>c. \<not> is_suffix_char c) nm" and "is_suffix_char sfx"
  shows "match_at k (nm @ sfx # r) = (k = length nm)"
proof (cases "k = length nm")
  case True
  then show ?thesis
    using assms by (simp add: match_at_def)
next
  case False
  show ?thesis
  proof (cases "k < length nm")
    case True
    then have "(nm @ sfx # r) ! k = nm ! k" by (simp add: nth_append)
    moreover have "\<not> is_suffix_char (nm ! k)"
      using assms(1) True by (simp add: list_all_length)
    ultimately show ?thesis using False by (simp add: match_at_def)
  next
    case ge: False
    then have gt: "length nm < k" using False by simp
    have "sfx \<in> set (take k (nm @ sfx # r))"
    proof -
      have "take k (nm @ sfx # r) = nm @ take (k - length nm) (sfx # r)"
        using gt by simp
      also have "\<dots> = nm @ sfx # take (k - length nm - 1) r"
        using gt by (cases "k - length nm") simp_all
      finally show ?thesis by simp
    qed
    then have "\<not> list_all (\<lambda>c. \<not> is_suffix_char c) (take k (nm @ sfx # r))"
      using assms(2) by (auto simp: list_all_iff)
    then have "\<not> match_at k (nm @ sfx # r)"
      unfolding match_at_def by blast
    then show ?thesis using False by simp
  qed
qed

lemma district_match_shape:
  assumes "1 \<le> length nm" and "length nm \<le> 4"
    and "list_all (\<lambda>c. \<not> is_suffix_char c) nm" and "is_suffix_char sfx"
  shows "district_match (nm @ sfx # r) = Some (nm @ [sfx])"
proof -
  have m: "match_at k (nm @ sfx # r) = (k = length nm)" for k
    using assms(3,4) by (rule match_at_shape)
  have t: "take (length nm + 1) (nm @ sfx # r) = nm @ [sfx]"
    by simp
  consider "length nm = 1" | "length nm = 2" | "length nm = 3" | "length nm = 4"
    using assms(1,2) by arith
  then show ?thesis
  proof cases
    case 1
    then have "take 2 (nm @ sfx # r) = nm @ [sfx]" using t by simp
    then show ?thesis using 1 by (simp add: district_match_def m)
  next
    case 2
    then have "take 3 (nm @ sfx # r) = nm @ [sfx]" using t by simp
    then show ?thesis using 2 by (simp add: district_match_def m)
  next
    case 3
    then have "take 4 (nm @ sfx # r) = nm @ [sfx]" using t by simp
    then show ?thesis using 3 by (simp add: district_match_def m)
  next
    case 4
    then have "take 5 (nm @ sfx # r) = nm @ [sfx]" using t by simp
    then show ?thesis using 4 by (simp add: district_match_def m)
  qed
qed

text \<open>
  For every city of the list, every district made of one to four characters that are not
  suffix characters followed by one suffix character, and every remainder, the parser
  returns that city, that district and the stripped remainder, whatever the fallbacks.
\<close>

lemma parse_known_city_and_shaped_district:
  assumes city: "city \<in> set CITY_PATTERNS"
    and len: "1 \<le> length nm" "length nm \<le> 4"
    and nm: "list_all (\<lambda>c. \<not> is_suffix_char c) nm"
    and sfx: "is_suffix_char sfx"
  shows "parse_city_and_district (Some (city @ nm @ sfx # rest)) fallback_city fallback_district
         = (Some city, Some (nm @ [sfx]), strip rest)"
proof -
  obtain c cs where c: "city = c # cs" and nsp: "\<not> isspace c"
    using city_head_not_space [OF city] by blast
  have cne: "city \<noteq> []" using c by simp
  have nss: "\<not> isspace sfx" using sfx by (rule suffix_char_not_space)
  have "lstrip (city @ nm @ sfx # rest) = city @ nm @ sfx # rest"
    using nsp by (simp add: c lstrip_Cons)
  then have "strip (city @ nm @ sfx # rest) = rstrip ((city @ nm) @ sfx # rest)"
    by (simp add: strip_def)
  also have "\<dots> = (city @ nm) @ sfx # rstrip rest"
    using nss by (rule rstrip_append_nonspace)
  finally have st: "strip (city @ nm @ sfx # rest) = city @ (nm @ sfx # rstrip rest)"
    by simp
  have mc: "match_city CITY_PATTERNS (city @ (nm @ sfx # rstrip rest)) = Some city"
    using city by (rule match_city_known)
  have dm: "district_match (nm @ sfx # rstrip rest) = Some (nm @ [sfx])"
    using len nm sfx by (rule district_match_shape)
  show ?thesis
    unfolding parse_city_and_district_def
    using cne by (simp add: st mc dm strip_rstrip)
qed


text \<open>The example of the module's docstring is of that shape.\<close>

lemma parse_docstring_example:
  "parse_city_and_district
     (Some ([0x81FA, 0x5317, 0x5E02] @ [0x5317, 0x6295, 0x5340]
            @ [0x69AE, 0x83EF, 0x4E09, 0x8DEF]))
     None None
   = (Some [0x81FA, 0x5317, 0x5E02], Some [0x5317, 0x6295, 0x5340],
      [0x69AE, 0x83EF, 0x4E09, 0x8DEF])"
proof -
  have city: "[0x81FA, 0x5317, 0x5E02] \<in> set CITY_PATTERNS"
    by (simp add: CITY_PATTERNS_def)
  have nm: "list_all (\<lambda>c. \<not> is_suffix_char c) [0x5317, 0x6295]"
    by (simp add: is_suffix_char_def DISTRICT_SUFFIXES_def)
  have sfx: "is_suffix_char 0x5340"
    by (simp add: is_suffix_char_def DISTRICT_SUFFIXES_def)
  have "parse_city_and_district
     (Some ([0x81FA, 0x5317, 0x5E02] @ [0x5317, 0x6295] @ 0x5340
            # [0x69AE, 0x83EF, 0x4E09, 0x8DEF]))
     None None
   = (Some [0x81FA, 0x5317, 0x5E02], Some ([0x5317, 0x6295] @ [0x5340]),
      strip [0x69AE, 0x83EF, 0x4E09, 0x8DEF])"
    using city _ _ nm sfx by (rule parse_known_city_and_shaped_district) simp_all
  moreover have "strip [0x69AE, 0x83EF, 0x4E09, 0x8DEF] = [0x69AE, 0x83EF, 0x4E09, 0x8DEF]"
    by (simp add: strip_def lstrip_def rstrip_def isspace_def)
  ultimately show ?thesis by simp
qed

text \<open>
  Claim C2 says that for a known city, a known district and any remainder the parser
  returns that city, that district and the remainder. The district is found by the
  pattern alone, and the pattern stops at the first suffix character it meets. Qianzhen
  District of Kaohsiung (U+524D U+93AE U+5340) has the suffix character U+93AE as its
  second character: for the address made of Kaohsiung City, that district and three more
  characters the parser returns the first two characters as the district and leaves the
  third at the head of the remainder.
\<close>

theorem parse_qianzhen_district:
  "parse_city_and_district
     (Some ([0x9AD8, 0x96C4, 0x5E02] @ [0x524D, 0x93AE, 0x5340] @ [0x4E2D, 0x5C71, 0x8DEF]))
     None None
   = (Some [0x9AD8, 0x96C4, 0x5E02], Some [0x524D, 0x93AE], [0x5340, 0x4E2D, 0x5C71, 0x8DEF])
   \<and> [0x9AD8, 0x96C4, 0x5E02] \<in> set CITY_PATTERNS"
proof -
  have city: "[0x9AD8, 0x96C4, 0x5E02] \<in> set CITY_PATTERNS"
    by (simp add: CITY_PATTERNS_def)
  have nm: "list_all (\<lambda>c. \<not> is_suffix_char c) [0x524D]"
    by (simp add: is_suffix_char_def DISTRICT_SUFFIXES_def)
  have sfx: "is_suffix_char 0x93AE"
    by (simp add: is_suffix_char_def DISTRICT_SUFFIXES_def)
  have "parse_city_and_district
     (Some ([0x9AD8, 0x96C4, 0x5E02] @ [0x524D] @ 0x93AE # [0x5340, 0x4E2D, 0x5C71, 0x8DEF]))
     None None
   = (Some [0x9AD8, 0x96C4, 0x5E02], Some ([0x524D] @ [0x93AE]),
      strip [0x5340, 0x4E2D, 0x5C71, 0x8DEF])"
    using city _ _ nm sfx by (rule parse_known_city_and_shaped_district) simp_all
  moreover have "strip [0x5340, 0x4E2D, 0x5C71, 0x8DEF] = [0x5340, 0x4E2D, 0x5C71, 0x8DEF]"
    by (simp add: strip_def lstrip_def rstrip_def isspace_def)
  ultimately show ?thesis
    using city by simp
qed

end
